theory Spec2Isabelle
  imports Main
begin

section \<open>The HSC download, split and catalog pipeline\<close>

text \<open>
  A shallow embedding of \<^verbatim>\<open>download_hsc_pipeline.py\<close>. Python strings are modelled as
  \<^typ>\<open>string\<close> over ASCII text, Python's unbounded integers as \<^typ>\<open>int\<close>, exceptions as
  values of the type \<open>error\<close>, and the outside world (directories, files, the remote
  archive, the console) as an explicit record that every operation takes and returns.
\<close>

subsection \<open>Strings\<close>

text \<open>\<^verbatim>\<open>\d\<close> of the \<^verbatim>\<open>re\<close> module and the digits \<^verbatim>\<open>int()\<close> accepts, on ASCII text.\<close>

definition is_digit :: "char \<Rightarrow> bool" where
  "is_digit c = (c \<in> set ''0123456789'')"

definition digit_val :: "char \<Rightarrow> nat" where
  "digit_val c = length (takeWhile (\<lambda>d. d \<noteq> c) ''0123456789'')"

text \<open>The ASCII characters for which \<^verbatim>\<open>str.isspace\<close> holds: what \<^verbatim>\<open>str.strip()\<close> removes.\<close>

definition is_space :: "char \<Rightarrow> bool" where
  "is_space c = (c \<in> set [CHR '' '', CHR 0x09, CHR 0x0A, CHR 0x0B, CHR 0x0C, CHR 0x0D,
                           CHR 0x1C, CHR 0x1D, CHR 0x1E, CHR 0x1F])"

definition strip :: "string \<Rightarrow> string" where
  "strip s = rev (dropWhile is_space (rev (dropWhile is_space s)))"

text \<open>\<^verbatim>\<open>u.split('/')\<close>: the separator never appears in a part, and there is always a part.\<close>

fun split_on :: "char \<Rightarrow> string \<Rightarrow> string list" where
  "split_on sep [] = [[]]"
| "split_on sep (c # cs) =
     (if c = sep then [] # split_on sep cs
      else (case split_on sep cs of
              [] \<Rightarrow> [[c]]
            | p # ps \<Rightarrow> (c # p) # ps))"

text \<open>
  \<^verbatim>\<open>re.search(r'(v\d+)', fn)\<close>: the leftmost \<^verbatim>\<open>v\<close> that a digit follows, with all the
  digits after it (the quantifier is greedy); \<open>None\<close> when there is no match.
\<close>

fun re_search_version :: "string \<Rightarrow> string option" where
  "re_search_version [] = None"
| "re_search_version (c # cs) =
     (if c = CHR ''v'' \<and> takeWhile is_digit cs \<noteq> []
      then Some (c # takeWhile is_digit cs)
      else re_search_version cs)"

text \<open>Whether a string has a substring of the shape \<^verbatim>\<open>v<digits>\<close>, said without searching
  for the match: somewhere a \<^verbatim>\<open>v\<close> stands directly before a digit.\<close>

fun contains_version :: "string \<Rightarrow> bool" where
  "contains_version [] = False"
| "contains_version [c] = False"
| "contains_version (c # d # cs) =
     ((c = CHR ''v'' \<and> is_digit d) \<or> contains_version (d # cs))"

text \<open>\<^verbatim>\<open>os.path.join(a, b)\<close> on a POSIX system, for two components.\<close>

definition os_path_join :: "string \<Rightarrow> string \<Rightarrow> string" where
  "os_path_join a b =
     (if b \<noteq> [] \<and> hd b = CHR ''/'' then b
      else if a = [] \<or> last a = CHR ''/'' then a @ b
      else a @ ''/'' @ b)"

subsection \<open>Errors\<close>

datatype error =
    IndexError
  | ValueError
  | TypeError
  | FileNotFoundError
  | OSError
  | ConnectionError
  | KeyError
  | HTTPError nat
  | SystemExit string

subsection \<open>Integers\<close>

text \<open>
  \<^verbatim>\<open>int(s)\<close> in base ten: surrounding whitespace is dropped, one sign is allowed, and the
  digits may be grouped by single underscores; anything else raises \<^verbatim>\<open>ValueError\<close>.
  The whitespace \<^verbatim>\<open>int\<close> drops is the space and the characters 0x09 to 0x0D only: the
  separators 0x1C to 0x1F, which \<^verbatim>\<open>str.strip()\<close> removes, make \<^verbatim>\<open>int\<close> raise.
  (The interpreter's limit on the number of digits is not modelled.)
\<close>

definition is_int_space :: "char \<Rightarrow> bool" where
  "is_int_space c = (c \<in> set [CHR '' '', CHR 0x09, CHR 0x0A, CHR 0x0B, CHR 0x0C, CHR 0x0D])"

fun parse_digits :: "nat \<Rightarrow> string \<Rightarrow> nat option" where
  "parse_digits acc [] = Some acc"
| "parse_digits acc (c # cs) =
     (if is_digit c then parse_digits (acc * 10 + digit_val c) cs
      else if c = CHR ''_'' then
        (case cs of
           [] \<Rightarrow> None
         | d # ds \<Rightarrow> if is_digit d then parse_digits (acc * 10 + digit_val d) ds else None)
      else None)"

definition parse_unsigned :: "string \<Rightarrow> nat option" where
  "parse_unsigned s =
     (case s of
        [] \<Rightarrow> None
      | c # cs \<Rightarrow> if is_digit c then parse_digits (digit_val c) cs else None)"

definition py_int :: "string \<Rightarrow> error + int" where
  "py_int s =
     (let t = rev (dropWhile is_int_space (rev (dropWhile is_int_space s)));
          neg = (t \<noteq> [] \<and> hd t = CHR ''-'');
          body = (if t \<noteq> [] \<and> (hd t = CHR ''-'' \<or> hd t = CHR ''+'') then tl t else t)
      in case parse_unsigned body of
           None \<Rightarrow> Inl ValueError
         | Some n \<Rightarrow> Inr (if neg then - int n else int n))"

text \<open>Line 206: the catalog's object id, from the two integers.\<close>

definition obj_id_of :: "int \<Rightarrow> int \<Rightarrow> int" where
  "obj_id_of snapshot subhalo = snapshot * 1000000 + subhalo"

subsection \<open>Slicing and the batch window\<close>

text \<open>
  A slice bound of Python, for a sequence of length \<open>n\<close>: a negative bound counts from the
  end, and every bound is clipped to the sequence.
\<close>

definition slice_index :: "nat \<Rightarrow> int \<Rightarrow> nat" where
  "slice_index n i = (if i < 0 then nat (max 0 (i + int n)) else min (nat i) n)"

text \<open>\<^verbatim>\<open>xs[lo:hi]\<close>, and \<^verbatim>\<open>xs[lo:]\<close> when \<open>hi\<close> is \<open>None\<close>.\<close>

definition py_slice :: "'a list \<Rightarrow> int \<Rightarrow> int option \<Rightarrow> 'a list" where
  "py_slice xs lo hi =
     (let n = length xs;
          a = slice_index n lo;
          b = (case hi of None \<Rightarrow> n | Some h \<Rightarrow> slice_index n h)
      in take (b - a) (drop a xs))"

text \<open>Lines 149 to 154: the batch of this invocation.\<close>

definition select_batch :: "string list \<Rightarrow> int option \<Rightarrow> int option \<Rightarrow> string list" where
  "select_batch urls BATCH_START BATCH_SIZE =
     (let start = (case BATCH_START of None \<Rightarrow> 0 | Some s \<Rightarrow> s)
      in case BATCH_SIZE of
           None \<Rightarrow> py_slice urls start None
         | Some sz \<Rightarrow> py_slice urls start (Some (start + sz)))"

subsection \<open>The locator parser and the file names\<close>

text \<open>Lines 163 to 170. \<^verbatim>\<open>parts[6]\<close> and \<^verbatim>\<open>parts[8]\<close> raise \<^verbatim>\<open>IndexError\<close> on a locator
  with too few components; \<^verbatim>\<open>parts[-1]\<close> always exists.\<close>

definition parse_url :: "string \<Rightarrow> error + (string \<times> string \<times> string)" where
  "parse_url u =
     (let parts = split_on CHR ''/'' u
      in if length parts \<le> 6 then Inl IndexError
         else if length parts \<le> 8 then Inl IndexError
         else
           let snapshot = parts ! 6;
               subhalo = parts ! 8;
               fn = last parts;
               version = (case re_search_version fn of Some v \<Rightarrow> v | None \<Rightarrow> ''v?'')
           in Inr (snapshot, subhalo, version))"

text \<open>Line 177.\<close>

definition fname_parent_of :: "string \<Rightarrow> string \<Rightarrow> string \<Rightarrow> string" where
  "fname_parent_of snapshot subhalo version =
     snapshot @ ''_'' @ subhalo @ ''_'' @ version @ ''_parent.fits''"

text \<open>Line 200.\<close>

definition out_name_of :: "string \<Rightarrow> string \<Rightarrow> string \<Rightarrow> string \<Rightarrow> string" where
  "out_name_of snapshot subhalo filt version =
     snapshot @ ''_'' @ subhalo @ ''_'' @ filt @ ''_'' @ version @ ''_hsc_realistic.fits''"

subsection \<open>Containers, files and the outside world\<close>

text \<open>A header card's value; \<^verbatim>\<open>EXTNAME\<close> is compared with a string.\<close>

datatype hvalue = HStr string | HInt int

text \<open>One extension (HDU) of a container: its header cards and its data.\<close>

record hdu =
  header :: "(string \<times> hvalue) list"
  data :: "nat list"

text \<open>\<^verbatim>\<open>h.header.get(key, default)\<close>.\<close>

definition header_get :: "hdu \<Rightarrow> string \<Rightarrow> hvalue \<Rightarrow> hvalue" where
  "header_get h key dflt = (case map_of (header h) key of None \<Rightarrow> dflt | Some v \<Rightarrow> v)"

text \<open>A row of the catalog is a dictionary, kept in the order its keys were written.\<close>

datatype cell = IntCell int | StrCell string

type_synonym catalog_entry = "(string \<times> cell) list"

text \<open>The JSON documents the listing reads: a list of strings, or an object whose
  members are lists of strings.\<close>

datatype json = JList "string list" | JObject "(string \<times> string list) list"

text \<open>The body of a response: a FITS container (its extensions), a JSON document, or
  bytes that are neither.\<close>

datatype payload = Container "hdu list" | Json json | Opaque

text \<open>
  What a path of the file system holds: a text file (its lines), a downloaded body, a
  split image (one primary HDU), or a table (its column names and its rows).
\<close>

datatype content =
    TextFile "string list"
  | ParentFile payload
  | SplitFile hdu
  | TableFile "string list" "catalog_entry list"

text \<open>What the remote archive answers to a GET: no connection, or a status code with a body.\<close>

datatype response =
    NoConnection
  | Response nat payload

text \<open>The lines the program prints, by kind and with the values they carry.\<close>

datatype message =
    NoUrls
  | Downloading string string
  | NoExtension string string
  | Wrote string
  | RemovedParent string
  | CouldNotRemove string
  | WroteCatalog nat string

text \<open>
  The environment the program cannot change: the archive, indexed by locator and
  credential; the paths whose removal the system refuses; and the exception, if any, with
  which the table library answers \<^verbatim>\<open>Table(rows=..., names=...)\<close> followed by
  \<^verbatim>\<open>write(path, overwrite=True)\<close>, given the names, the rows and the path.
\<close>

record env =
  remote :: "string \<Rightarrow> string option \<Rightarrow> response"
  remove_denied :: "string \<Rightarrow> bool"
  table_error :: "string list \<Rightarrow> catalog_entry list \<Rightarrow> string \<Rightarrow> error option"

text \<open>The state the program changes: directories ensured, files, requests issued (in
  order), lines printed (in order), and the number of pauses taken.\<close>

record world =
  dirs :: "string list"
  files :: "string \<rightharpoonup> content"
  fetched :: "(string \<times> string option) list"
  printed :: "message list"
  pauses :: nat

definition print :: "message \<Rightarrow> world \<Rightarrow> world" where
  "print m w = w\<lparr>printed := printed w @ [m]\<rparr>"

text \<open>\<^verbatim>\<open>os.makedirs(p, exist_ok=True)\<close>: the empty path has no directory to make.\<close>

definition makedirs :: "string \<Rightarrow> world \<Rightarrow> error + world" where
  "makedirs p w = (if p = [] then Inl FileNotFoundError else Inr (w\<lparr>dirs := dirs w @ [p]\<rparr>))"

text \<open>\<^verbatim>\<open>r.raise_for_status()\<close> raises for the client and server error codes.\<close>

definition raise_for_status :: "nat \<Rightarrow> error option" where
  "raise_for_status code = (if 400 \<le> code \<and> code < 600 then Some (HTTPError code) else None)"

text \<open>\<^verbatim>\<open>fits.open(path)\<close>, as far as the extensions it yields.\<close>

definition fits_open :: "world \<Rightarrow> string \<Rightarrow> error + hdu list" where
  "fits_open w path =
     (case files w path of
        None \<Rightarrow> Inl FileNotFoundError
      | Some (ParentFile (Container hdul)) \<Rightarrow> Inr hdul
      | Some (SplitFile h) \<Rightarrow> Inr [h]
      | Some _ \<Rightarrow> Inl OSError)"

text \<open>\<^verbatim>\<open>os.remove(path)\<close>.\<close>

definition os_remove :: "env \<Rightarrow> string \<Rightarrow> world \<Rightarrow> error + world" where
  "os_remove e path w =
     (if files w path = None \<or> remove_denied e path then Inl OSError
      else Inr (w\<lparr>files := (files w)(path := None)\<rparr>))"

subsection \<open>The pipeline\<close>

text \<open>The arguments of \<^verbatim>\<open>download_and_split_hsc_images\<close>.\<close>

record config =
  split_output_dir :: string
  URL_LIST :: "string option"
  BATCH_START :: "int option"
  BATCH_SIZE :: "int option"
  API_KEY :: "string option"
  remove_parent :: bool
  catalog_path :: "string option"
  parent_file_only :: bool
  parent_output_dir :: "string option"

text \<open>Python's truth value of an optional string: \<^verbatim>\<open>None\<close> and \<^verbatim>\<open>''\<close> are false.\<close>

definition truthy :: "string option \<Rightarrow> bool" where
  "truthy x = (case x of None \<Rightarrow> False | Some s \<Rightarrow> s \<noteq> [])"

text \<open>The state of the main loop: the world and \<^verbatim>\<open>catalog_entries\<close>.\<close>

type_synonym pstate = "world \<times> catalog_entry list option"

text \<open>Line 139: \<^verbatim>\<open>parent_output_dir or split_output_dir\<close>.\<close>

definition parent_dir_of :: "config \<Rightarrow> string" where
  "parent_dir_of cfg =
     (case parent_output_dir cfg of
        None \<Rightarrow> split_output_dir cfg
      | Some d \<Rightarrow> if d = [] then split_output_dir cfg else d)"

text \<open>Lines 139 to 144. When a call raises, the result carries the exception and the
  world as it was then: a failure of the second call leaves the first directory made.\<close>

definition setup_dirs :: "config \<Rightarrow> world \<Rightarrow> (error \<times> world) + world" where
  "setup_dirs cfg w =
     (case makedirs (parent_dir_of cfg) w of
        Inl err \<Rightarrow> Inl (err, w)
      | Inr w1 \<Rightarrow>
          if \<not> parent_file_only cfg then
            (case makedirs (split_output_dir cfg) w1 of
               Inl err \<Rightarrow> Inl (err, w1)
             | Inr w2 \<Rightarrow> Inr w2)
          else Inr w1)"

text \<open>Lines 147 and 148: the lines of the list, stripped, the blank ones dropped. A path
  that is \<^verbatim>\<open>None\<close>, absent, or not a text file raises.\<close>

definition load_urls :: "world \<Rightarrow> string option \<Rightarrow> error + string list" where
  "load_urls w path =
     (case path of
        None \<Rightarrow> Inl TypeError
      | Some p \<Rightarrow>
          (case files w p of
             None \<Rightarrow> Inl FileNotFoundError
           | Some (TextFile ls) \<Rightarrow> Inr (map strip (filter (\<lambda>u. strip u \<noteq> []) ls))
           | Some _ \<Rightarrow> Inl ValueError))"

text \<open>Lines 180 to 184: one GET, logged; a failed connection or an error status raises
  and nothing is written.\<close>

definition download_parent ::
  "env \<Rightarrow> string option \<Rightarrow> string \<Rightarrow> string \<Rightarrow> world \<Rightarrow> world \<times> error option" where
  "download_parent e key url parent_path w =
     (let w1 = w\<lparr>fetched := fetched w @ [(url, key)]\<rparr>
      in case remote e url key of
           NoConnection \<Rightarrow> (w1, Some ConnectionError)
         | Response code body \<Rightarrow>
             (case raise_for_status code of
                Some err \<Rightarrow> (w1, Some err)
              | None \<Rightarrow> (w1\<lparr>files := (files w1)(parent_path \<mapsto> ParentFile body)\<rparr>, None)))"

text \<open>Lines 191 to 194: the first extension whose \<^verbatim>\<open>EXTNAME\<close> is the target.\<close>

definition find_hdu :: "hdu list \<Rightarrow> string \<Rightarrow> hdu option" where
  "find_hdu hdul target_ext =
     find (\<lambda>h. header_get h ''EXTNAME'' (HStr []) = HStr target_ext) hdul"

definition bands :: "string list" where
  "bands = [''G'', ''R'', ''I'', ''Z'', ''Y'']"

definition catalog_columns :: "string list" where
  "catalog_columns = [''object_id'', ''filename'', ''filter'']"

text \<open>Lines 190 to 211: the body of the loop over the filters, for one filter.\<close>

definition split_filter ::
  "string \<Rightarrow> hdu list \<Rightarrow> string \<Rightarrow> string \<Rightarrow> string \<Rightarrow> string \<Rightarrow> pstate
     \<Rightarrow> pstate \<times> error option" where
  "split_filter out_dir hdul snapshot subhalo version filt st =
     (let w = fst st;
          catalog_entries = snd st;
          target_ext = ''SUBARU_HSC.'' @ filt
      in case find_hdu hdul target_ext of
           None \<Rightarrow>
             ((print (NoExtension target_ext (fname_parent_of snapshot subhalo version)) w,
               catalog_entries), None)
         | Some sci_hdu \<Rightarrow>
             let out_name = out_name_of snapshot subhalo filt version;
                 out_path = os_path_join out_dir out_name;
                 w1 = print (Wrote out_name)
                        (w\<lparr>files := (files w)(out_path \<mapsto> SplitFile sci_hdu)\<rparr>)
             in case catalog_entries of
                  None \<Rightarrow> ((w1, None), None)
                | Some es \<Rightarrow>
                    (case py_int snapshot of
                       Inl err \<Rightarrow> ((w1, Some es), Some err)
                     | Inr s \<Rightarrow>
                         (case py_int subhalo of
                            Inl err \<Rightarrow> ((w1, Some es), Some err)
                          | Inr h \<Rightarrow>
                              ((w1, Some (es @ [[(''object_id'', IntCell (obj_id_of s h)),
                                                 (''filename'', StrCell out_name),
                                                 (''filter'', StrCell filt)]])),
                               None))))"

text \<open>Line 189: the loop over the filters; an exception leaves it.\<close>

fun split_filters ::
  "string \<Rightarrow> hdu list \<Rightarrow> string \<Rightarrow> string \<Rightarrow> string \<Rightarrow> string list \<Rightarrow> pstate
     \<Rightarrow> pstate \<times> error option" where
  "split_filters out_dir hdul snapshot subhalo version [] st = (st, None)"
| "split_filters out_dir hdul snapshot subhalo version (filt # rest) st =
     (case split_filter out_dir hdul snapshot subhalo version filt st of
        (st1, Some err) \<Rightarrow> (st1, Some err)
      | (st1, None) \<Rightarrow> split_filters out_dir hdul snapshot subhalo version rest st1)"

text \<open>Lines 214 to 219: the removal of the parent file, whose failure is only reported.\<close>

definition cleanup_parent :: "env \<Rightarrow> string \<Rightarrow> string \<Rightarrow> world \<Rightarrow> world" where
  "cleanup_parent e parent_path fname_parent w =
     (case os_remove e parent_path w of
        Inl err \<Rightarrow> print (CouldNotRemove fname_parent) w
      | Inr w1 \<Rightarrow> print (RemovedParent fname_parent) w1)"

text \<open>Lines 174 to 222: the body of the main loop, for one locator.\<close>

definition process_url :: "config \<Rightarrow> env \<Rightarrow> string \<Rightarrow> pstate \<Rightarrow> pstate \<times> error option" where
  "process_url cfg e url st =
     (case parse_url url of
        Inl err \<Rightarrow> (st, Some err)
      | Inr (snapshot, subhalo, version) \<Rightarrow>
          let fname_parent = fname_parent_of snapshot subhalo version;
              parent_path = os_path_join (parent_dir_of cfg) fname_parent;
              w1 = print (Downloading fname_parent (parent_dir_of cfg)) (fst st)
          in case download_parent e (API_KEY cfg) url parent_path w1 of
               (w2, Some err) \<Rightarrow> ((w2, snd st), Some err)
             | (w2, None) \<Rightarrow>
                 if parent_file_only cfg then ((w2, snd st), None)
                 else
                   (case fits_open w2 parent_path of
                      Inl err \<Rightarrow> ((w2, snd st), Some err)
                    | Inr hdul \<Rightarrow>
                        (case split_filters (split_output_dir cfg) hdul snapshot subhalo version
                                bands (w2, snd st) of
                           (st3, Some err) \<Rightarrow> (st3, Some err)
                         | (st3, None) \<Rightarrow>
                             let w4 = (if remove_parent cfg
                                       then cleanup_parent e parent_path fname_parent (fst st3)
                                       else fst st3)
                             in ((w4\<lparr>pauses := Suc (pauses w4)\<rparr>, snd st3), None))))"

text \<open>Line 173: the main loop; an exception leaves it.\<close>

fun run_batch :: "config \<Rightarrow> env \<Rightarrow> string list \<Rightarrow> pstate \<Rightarrow> pstate \<times> error option" where
  "run_batch cfg e [] st = (st, None)"
| "run_batch cfg e (url # rest) st =
     (case process_url cfg e url st of
        (st1, Some err) \<Rightarrow> (st1, Some err)
      | (st1, None) \<Rightarrow> run_batch cfg e rest st1)"

text \<open>Lines 224 to 227: the table is built from the rows and the three names and written
  over whatever the path held, unless the table library raises.\<close>

definition write_catalog :: "config \<Rightarrow> env \<Rightarrow> pstate \<Rightarrow> world \<times> error option" where
  "write_catalog cfg e st =
     (case snd st of
        None \<Rightarrow> (fst st, None)
      | Some es \<Rightarrow>
          if parent_file_only cfg then (fst st, None)
          else
            (case catalog_path cfg of
               None \<Rightarrow> (fst st, Some TypeError)
             | Some p \<Rightarrow>
                 (case table_error e catalog_columns es p of
                    Some err \<Rightarrow> (fst st, Some err)
                  | None \<Rightarrow>
                      (print (WroteCatalog (length es) p)
                         ((fst st)\<lparr>files := (files (fst st))(p \<mapsto> TableFile catalog_columns es)\<rparr>),
                       None))))"

text \<open>Lines 138 to 227.\<close>

definition download_and_split_hsc_images :: "config \<Rightarrow> env \<Rightarrow> world \<Rightarrow> world \<times> error option" where
  "download_and_split_hsc_images cfg e w =
     (case setup_dirs cfg w of
        Inl (err, w0) \<Rightarrow> (w0, Some err)
      | Inr w1 \<Rightarrow>
          (case load_urls w1 (URL_LIST cfg) of
             Inl err \<Rightarrow> (w1, Some err)
           | Inr urls \<Rightarrow>
               let batch = select_batch urls (BATCH_START cfg) (BATCH_SIZE cfg)
               in if batch = [] then (print NoUrls w1, None)
                  else
                    let catalog_entries = (if truthy (catalog_path cfg) then Some [] else None)
                    in case run_batch cfg e batch (w1, catalog_entries) of
                         (st, Some err) \<Rightarrow> (fst st, Some err)
                       | (st, None) \<Rightarrow> write_catalog cfg e st))"

subsection \<open>The credential and the entry point\<close>

text \<open>Lines 230 to 237: \<^verbatim>\<open>explicit or os.environ.get('TNG_API_KEY')\<close>, and the exit when
  the result is \<^verbatim>\<open>None\<close> or empty. The first argument is the explicit key, the second the
  value of the environment variable.\<close>

definition missing_key_message :: "string \<Rightarrow> string" where
  "missing_key_message command_name = command_name @
     '' requires an API key. Provide --api-key or set the TNG_API_KEY environment variable.''"

definition resolve_api_key :: "string option \<Rightarrow> string option \<Rightarrow> string \<Rightarrow> error + string" where
  "resolve_api_key explicit environ_key command_name =
     (let api_key = (if truthy explicit then explicit else environ_key)
      in case api_key of
           None \<Rightarrow> Inl (SystemExit (missing_key_message command_name))
         | Some k \<Rightarrow>
             if k = [] then Inl (SystemExit (missing_key_message command_name))
             else Inr k)"

text \<open>Lines 49 to 52: one GET of a JSON document, logged.\<close>

definition get_endpoint ::
  "env \<Rightarrow> string option \<Rightarrow> string \<Rightarrow> world \<Rightarrow> world \<times> (error + json)" where
  "get_endpoint e key url w =
     (let w1 = w\<lparr>fetched := fetched w @ [(url, key)]\<rparr>
      in case remote e url key of
           NoConnection \<Rightarrow> (w1, Inl ConnectionError)
         | Response code body \<Rightarrow>
             (case raise_for_status code of
                Some err \<Rightarrow> (w1, Inl err)
              | None \<Rightarrow>
                  (case body of
                     Json j \<Rightarrow> (w1, Inr j)
                   | _ \<Rightarrow> (w1, Inl ValueError))))"

text \<open>\<^verbatim>\<open>s in t\<close> on strings.\<close>

fun is_infix :: "string \<Rightarrow> string \<Rightarrow> bool" where
  "is_infix s [] = (s = [])"
| "is_infix s (c # cs) = (take (length s) (c # cs) = s \<or> is_infix s cs)"

text \<open>Lines 57 and 58: the files of every snapshot listing, in order.\<close>

fun collect_files ::
  "env \<Rightarrow> string option \<Rightarrow> string list \<Rightarrow> string list \<Rightarrow> world
     \<Rightarrow> world \<times> (error + string list)" where
  "collect_files e key [] all_urls w = (w, Inr all_urls)"
| "collect_files e key (url # rest) all_urls w =
     (case get_endpoint e key url w of
        (w1, Inl err) \<Rightarrow> (w1, Inl err)
      | (w1, Inr (JList xs)) \<Rightarrow> (w1, Inl TypeError)
      | (w1, Inr (JObject members)) \<Rightarrow>
          (case map_of members ''files'' of
             None \<Rightarrow> (w1, Inl KeyError)
           | Some fs \<Rightarrow> collect_files e key rest (all_urls @ fs) w1))"

text \<open>Lines 29 to 62.\<close>

definition make_list_of_urls ::
  "string option \<Rightarrow> string \<Rightarrow> string \<Rightarrow> string \<Rightarrow> string \<Rightarrow> env \<Rightarrow> world
     \<Rightarrow> world \<times> error option" where
  "make_list_of_urls key BASE_API_URL ENDING SNAPSHOT_FILTER output_path e w =
     (case get_endpoint e key (BASE_API_URL @ ENDING) w of
        (w1, Inl err) \<Rightarrow> (w1, Some err)
      | (w1, Inr j) \<Rightarrow>
          let snapshot_urls = (case j of JList xs \<Rightarrow> xs | JObject members \<Rightarrow> map fst members);
              filtered = filter (is_infix SNAPSHOT_FILTER) snapshot_urls
          in case collect_files e key filtered [] w1 of
               (w2, Inl err) \<Rightarrow> (w2, Some err)
             | (w2, Inr all_urls) \<Rightarrow>
                 if output_path = [] then (w2, Some FileNotFoundError)
                 else (w2\<lparr>files := (files w2)(output_path \<mapsto>
                              TextFile (map (\<lambda>u. u @ [CHR 0x0A]) all_urls))\<rparr>, None))"

text \<open>The parsed command line: the \<^verbatim>\<open>fetch\<close> command with its options, or the \<^verbatim>\<open>split\<close>
  command, whose options are the pipeline's arguments with \<^verbatim>\<open>--api-key\<close> as \<open>API_KEY\<close>.\<close>

record fetch_args =
  api_key :: "string option"
  base_api_url :: string
  ending :: string
  snapshot_filter :: string
  output_path :: string

datatype command = Fetch fetch_args | Split config

text \<open>Lines 333 to 361, after the parsing of the arguments. The second argument is the
  value of the environment variable \<^verbatim>\<open>TNG_API_KEY\<close>.\<close>

definition main :: "command \<Rightarrow> string option \<Rightarrow> env \<Rightarrow> world \<Rightarrow> world \<times> error option" where
  "main cmd environ_key e w =
     (case cmd of
        Fetch args \<Rightarrow>
          (case resolve_api_key (api_key args) environ_key ''fetch'' of
             Inl err \<Rightarrow> (w, Some err)
           | Inr k \<Rightarrow>
               make_list_of_urls (Some k) (base_api_url args) (ending args)
                 (snapshot_filter args) (output_path args) e w)
      | Split args \<Rightarrow>
          (case resolve_api_key (API_KEY args) environ_key ''split'' of
             Inl err \<Rightarrow> (w, Some err)
           | Inr k \<Rightarrow> download_and_split_hsc_images (args\<lparr>API_KEY := Some k\<rparr>) e w))"

subsection \<open>What a run can change\<close>

text \<open>
  Two relations used to say what the main loop leaves alone. From \<open>w\<close> to \<open>w'\<close> the world
  grows when no path has become a table, the printed lines and the requests were only
  added to, and the directories are the same. The entries grow when \<^verbatim>\<open>None\<close> stays \<^verbatim>\<open>None\<close>
  and a list only gets rows appended, each with the three keys of the catalog in order.
\<close>

definition world_grows :: "world \<Rightarrow> world \<Rightarrow> bool" where
  "world_grows w w' =
     ((\<forall>p names rows. files w' p = Some (TableFile names rows)
         \<longrightarrow> files w p = Some (TableFile names rows))
      \<and> (\<exists>ms. printed w' = printed w @ ms)
      \<and> (\<exists>rs. fetched w' = fetched w @ rs)
      \<and> dirs w' = dirs w)"

definition entries_grow :: "catalog_entry list option \<Rightarrow> catalog_entry list option \<Rightarrow> bool" where
  "entries_grow c c' =
     (case c of
        None \<Rightarrow> c' = None
      | Some es \<Rightarrow> (\<exists>new. c' = Some (es @ new) \<and> (\<forall>row\<in>set new. map fst row = catalog_columns)))"

definition extends :: "pstate \<Rightarrow> pstate \<Rightarrow> bool" where
  "extends st st' = (world_grows (fst st) (fst st') \<and> entries_grow (snd st) (snd st'))"

subsection \<open>Example inputs\<close>

definition ex_url :: string where
  "ex_url = ''https://www.tng-project.org/api/TNG50-1/snapshots/72/subhalos/0/skirt/skirt_images_hsc_realistic_v2.fits''"

definition ex_url2 :: string where
  "ex_url2 = ''https://www.tng-project.org/api/TNG50-1/snapshots/72/subhalos/1/skirt/skirt_images_hsc_realistic_v2.fits''"

definition ex_url3 :: string where
  "ex_url3 = ''https://www.tng-project.org/api/TNG50-1/snapshots/72/subhalos/2/skirt/skirt_images_hsc_realistic.fits''"

definition ex_hdu_G :: hdu where
  "ex_hdu_G = \<lparr>header = [(''EXTNAME'', HStr ''SUBARU_HSC.G'')], data = [1, 2, 3]\<rparr>"

definition ex_hdu_other :: hdu where
  "ex_hdu_other = \<lparr>header = [(''EXTNAME'', HStr ''PRIMARY'')], data = []\<rparr>"

text \<open>An archive that serves a container with the band G for the first locator, a
  container with none of the five bands for the second, and status 404 otherwise (so
  for the third).\<close>

definition ex_env :: env where
  "ex_env = \<lparr>remote = (\<lambda>url key.
                if url = ex_url then Response 200 (Container [ex_hdu_other, ex_hdu_G])
                else if url = ex_url2 then Response 200 (Container [ex_hdu_other])
                else Response 404 Opaque),
             remove_denied = (\<lambda>p. False),
             table_error = (\<lambda>names rows p. None)\<rparr>"

text \<open>The same archive, but answering the third locator with the given status and body.\<close>

definition ex_env_status :: "nat \<Rightarrow> payload \<Rightarrow> env" where
  "ex_env_status code body =
     ex_env\<lparr>remote := (\<lambda>url key. if url = ex_url3 then Response code body
                                   else remote ex_env url key)\<rparr>"


definition ex_world :: "string list \<Rightarrow> world" where
  "ex_world ls = \<lparr>dirs = [], files = [''urls.txt'' \<mapsto> TextFile ls,
                                       ''catalog.fits'' \<mapsto> TextFile [''old'']],
                  fetched = [], printed = [], pauses = 0\<rparr>"

definition ex_cfg :: config where
  "ex_cfg = \<lparr>split_output_dir = ''split_images'', URL_LIST = Some ''urls.txt'',
             BATCH_START = Some 0, BATCH_SIZE = None, API_KEY = Some ''key'',
             remove_parent = False, catalog_path = Some ''catalog.fits'',
             parent_file_only = False, parent_output_dir = None\<rparr>"

section \<open>Properties\<close>

subsection \<open>The version tag\<close>

lemma re_search_version_None: "re_search_version s = None \<longleftrightarrow> \<not> contains_version s"
proof (induction s rule: contains_version.induct)
  case 1
  show ?case by simp
next
  case (2 c)
  show ?case by simp
next
  case (3 c d cs)
  then show ?case by (cases "is_digit d") auto
qed

subsection \<open>The object id\<close>

text \<open>
  Claim C2. For every snapshot id and every subhalo id from 0 to 999999, the object id
  \<open>snapshot_id * 1000000 + subhalo_id\<close> of line 206 decodes again: floor division by
  1000000 gives the snapshot id and the remainder gives the subhalo id.
\<close>

theorem object_id_round_trip:
  "0 \<le> subhalo_id \<Longrightarrow> subhalo_id \<le> 999999 \<Longrightarrow>
     obj_id_of snapshot_id subhalo_id div 1000000 = snapshot_id \<and>
     obj_id_of snapshot_id subhalo_id mod 1000000 = subhalo_id"
  by (simp add: obj_id_of_def)

theorem object_id_round_trip_witness:
  "obj_id_of 72 999999 = 72999999 \<and> obj_id_of 72 999999 div 1000000 = 72
     \<and> obj_id_of 72 999999 mod 1000000 = 999999"
  using object_id_round_trip [of 999999 72] by (simp add: obj_id_of_def)

subsection \<open>The batch window\<close>

lemma py_slice_to_end:
  "0 \<le> lo \<Longrightarrow> py_slice xs lo None = drop (nat lo) xs"
  by (simp add: py_slice_def slice_index_def Let_def min_def)

lemma py_slice_window:
  "0 \<le> lo \<Longrightarrow> 0 < k \<Longrightarrow> py_slice xs lo (Some (lo + k)) = take (nat k) (drop (nat lo) xs)"
  by (auto simp: py_slice_def slice_index_def Let_def min_def nat_add_distrib)

text \<open>
  Claim C3. For every list of locators, every start that is not negative and every size
  that is positive or \<open>None\<close>, the batch is the contiguous run of the list from \<open>start\<close>, of
  \<open>size\<close> elements or to the end, clipped to the list; its length is
  \<open>max 0 (min size (total - start))\<close> (with \<open>total - start\<close> alone when the size is \<open>None\<close>)
  when \<open>start < total\<close> and 0 otherwise; a start beyond the list gives the empty batch;
  and a start of \<open>None\<close> is a start of 0.
\<close>

theorem select_batch_window:
  assumes "0 \<le> start" and "case sz of None \<Rightarrow> True | Some k \<Rightarrow> 0 < k"
  shows "select_batch urls (Some start) sz =
           (case sz of None \<Rightarrow> drop (nat start) urls
                     | Some k \<Rightarrow> take (nat k) (drop (nat start) urls))
       \<and> int (length (select_batch urls (Some start) sz)) =
           (if start < int (length urls)
            then max 0 (case sz of None \<Rightarrow> int (length urls) - start
                                 | Some k \<Rightarrow> min k (int (length urls) - start))
            else 0)
       \<and> (int (length urls) \<le> start \<longrightarrow> select_batch urls (Some start) sz = [])
       \<and> select_batch urls None sz = select_batch urls (Some 0) sz"
proof (cases sz)
  case None
  with assms show ?thesis
    by (auto simp: select_batch_def py_slice_to_end)
next
  case (Some k)
  with assms have k: "0 < k" by simp
  with assms Some show ?thesis
    by (auto simp: select_batch_def py_slice_window min_def)
qed

theorem select_batch_window_witness:
  "(0::int) \<le> 1 \<and> select_batch [''a'', ''b'', ''c''] (Some 1) (Some 1) = [''b'']
     \<and> int (length (select_batch [''a'', ''b'', ''c''] (Some 1) (Some 1))) = 1"
  using select_batch_window [of 1 "Some 1" "[''a'', ''b'', ''c'']"] by simp

subsection \<open>The locator parser\<close>

text \<open>
  Claim C4, as stated, fails: a locator with fewer than nine components separated by
  \<^verbatim>\<open>/\<close> and no version tag in its last component makes the parser raise \<^verbatim>\<open>IndexError\<close>.
\<close>

theorem parse_url_short_counterexample:
  "\<not> contains_version (last (split_on CHR ''/'' ''archive/72/0/image.fits''))
     \<and> parse_url ''archive/72/0/image.fits'' = Inl IndexError"
  by (simp add: parse_url_def is_digit_def)

text \<open>
  Claim C4, amended. For every locator with at least nine components whose last component
  has no substring of the shape \<^verbatim>\<open>v<digits>\<close>, the parser returns the components at
  indices 6 and 8 and the version \<^verbatim>\<open>v?\<close>, and the parent and split file names made from
  them contain \<^verbatim>\<open>v?\<close> as it is.
\<close>

theorem parse_url_unversioned:
  assumes "8 < length (split_on CHR ''/'' u)"
    and "\<not> contains_version (last (split_on CHR ''/'' u))"
  shows "parse_url u = Inr (split_on CHR ''/'' u ! 6, split_on CHR ''/'' u ! 8, ''v?'')
       \<and> fname_parent_of (split_on CHR ''/'' u ! 6) (split_on CHR ''/'' u ! 8) ''v?'' =
           split_on CHR ''/'' u ! 6 @ ''_'' @ split_on CHR ''/'' u ! 8 @ ''_v?_parent.fits''
       \<and> (\<forall>filt. out_name_of (split_on CHR ''/'' u ! 6) (split_on CHR ''/'' u ! 8) filt ''v?'' =
           split_on CHR ''/'' u ! 6 @ ''_'' @ split_on CHR ''/'' u ! 8 @ ''_'' @ filt
             @ ''_v?_hsc_realistic.fits'')"
proof -
  from assms(2) have "re_search_version (last (split_on CHR ''/'' u)) = None"
    by (simp add: re_search_version_None)
  with assms(1) show ?thesis
    by (simp add: parse_url_def Let_def fname_parent_of_def out_name_of_def)
qed

theorem parse_url_unversioned_witness:
  "parse_url ''https://host/api/sim/snapshots/72/subhalos/0/skirt/image.fits''
       = Inr (''72'', ''0'', ''v?'')
     \<and> fname_parent_of ''72'' ''0'' ''v?'' = ''72_0_v?_parent.fits''
     \<and> out_name_of ''72'' ''0'' ''G'' ''v?'' = ''72_0_G_v?_hsc_realistic.fits''"
  using parse_url_unversioned [of "''https://host/api/sim/snapshots/72/subhalos/0/skirt/image.fits''"]
  by (simp add: is_digit_def)

subsection \<open>The main loop only adds\<close>

lemma world_grows_refl: "world_grows w w"
  by (simp add: world_grows_def)

lemma world_grows_trans: "world_grows w w1 \<Longrightarrow> world_grows w1 w2 \<Longrightarrow> world_grows w w2"
  by (auto simp: world_grows_def)

lemma entries_grow_refl: "entries_grow c c"
  by (cases c) (auto simp: entries_grow_def)

lemma entries_grow_trans: "entries_grow c c1 \<Longrightarrow> entries_grow c1 c2 \<Longrightarrow> entries_grow c c2"
  by (cases c) (fastforce simp: entries_grow_def)+

lemma extends_refl: "extends st st"
  by (simp add: extends_def world_grows_refl entries_grow_refl)

lemma extends_trans: "extends st st1 \<Longrightarrow> extends st1 st2 \<Longrightarrow> extends st st2"
  unfolding extends_def using world_grows_trans entries_grow_trans by blast

lemma print_grows: "world_grows w (print m w)"
  by (simp add: world_grows_def print_def)

lemma pause_grows: "world_grows w (w\<lparr>pauses := n\<rparr>)"
  by (simp add: world_grows_def)

lemma download_parent_grows:
  "download_parent e key url path w = (w', r) \<Longrightarrow> world_grows w w'"
  by (auto simp: download_parent_def world_grows_def Let_def
           split: response.splits option.splits if_splits)

lemma cleanup_parent_grows: "world_grows w (cleanup_parent e path fname w)"
  by (auto simp: cleanup_parent_def os_remove_def world_grows_def print_def
           split: sum.splits if_splits)

lemma split_filter_extends:
  "split_filter od hdul sn sh v f st = (st', r) \<Longrightarrow> extends st st'"
  by (auto simp: split_filter_def extends_def world_grows_def entries_grow_def Let_def print_def
                 catalog_columns_def
           split: option.splits sum.splits if_splits)

lemma split_filters_extends:
  "split_filters od hdul sn sh v fs st = (st', r) \<Longrightarrow> extends st st'"
proof (induction fs arbitrary: st)
  case Nil
  then show ?case by (simp add: extends_refl)
next
  case (Cons f fs)
  obtain st1 r1 where step: "split_filter od hdul sn sh v f st = (st1, r1)"
    by (cases "split_filter od hdul sn sh v f st")
  have a: "extends st st1" using step by (rule split_filter_extends)
  show ?case
  proof (cases r1)
    case None
    with Cons.prems step have "split_filters od hdul sn sh v fs st1 = (st', r)" by simp
    then have "extends st1 st'" by (rule Cons.IH)
    with a show ?thesis by (rule extends_trans)
  next
    case (Some err)
    with Cons.prems step have "st' = st1" by simp
    with a show ?thesis by simp
  qed
qed

lemma process_url_extends:
  assumes "process_url cfg e url st = (st', r)"
  shows "extends st st'"
proof (cases "parse_url url")
  case (Inl err)
  with assms show ?thesis by (auto simp: process_url_def extends_refl)
next
  case (Inr t)
  obtain sn sh v where t: "t = (sn, sh, v)" by (cases t)
  define fname where "fname = fname_parent_of sn sh v"
  define path where "path = os_path_join (parent_dir_of cfg) fname"
  define w1 where "w1 = print (Downloading fname (parent_dir_of cfg)) (fst st)"
  obtain w2 r2 where dl: "download_parent e (API_KEY cfg) url path w1 = (w2, r2)"
    by (cases "download_parent e (API_KEY cfg) url path w1")
  have "world_grows (fst st) w1" by (simp add: w1_def print_grows)
  moreover have "world_grows w1 w2" using dl by (rule download_parent_grows)
  ultimately have "world_grows (fst st) w2" by (rule world_grows_trans)
  then have a2: "extends st (w2, snd st)" by (simp add: extends_def entries_grow_refl)
  show ?thesis
  proof (cases "r2 = None \<and> \<not> parent_file_only cfg")
    case False
    with assms Inr t dl a2 show ?thesis
      by (auto simp: process_url_def Let_def fname_def path_def w1_def split: option.splits)
  next
    case True
    show ?thesis
    proof (cases "fits_open w2 path")
      case (Inl err)
      with assms Inr t dl a2 True show ?thesis
        by (auto simp: process_url_def Let_def fname_def path_def w1_def)
    next
      case hd: (Inr hdul)
      obtain st3 r3 where sp:
        "split_filters (split_output_dir cfg) hdul sn sh v bands (w2, snd st) = (st3, r3)"
        by (cases "split_filters (split_output_dir cfg) hdul sn sh v bands (w2, snd st)")
      then have "extends (w2, snd st) st3" by (rule split_filters_extends)
      with a2 have a3: "extends st st3" by (rule extends_trans)
      define w4 where "w4 = (if remove_parent cfg then cleanup_parent e path fname (fst st3)
                             else fst st3)"
      have "world_grows (fst st3) w4"
        by (simp add: w4_def cleanup_parent_grows world_grows_refl)
      then have "world_grows (fst st3) (w4\<lparr>pauses := Suc (pauses w4)\<rparr>)"
        using pause_grows world_grows_trans by blast
      then have "extends st3 (w4\<lparr>pauses := Suc (pauses w4)\<rparr>, snd st3)"
        by (simp add: extends_def entries_grow_refl)
      with a3 have a5: "extends st (w4\<lparr>pauses := Suc (pauses w4)\<rparr>, snd st3)"
        by (rule extends_trans)
      show ?thesis
      proof (cases r3)
        case None
        with assms Inr t dl True hd sp
        have "st' = (w4\<lparr>pauses := Suc (pauses w4)\<rparr>, snd st3)"
          by (auto simp: process_url_def Let_def fname_def path_def w1_def w4_def)
        with a5 show ?thesis by simp
      next
        case (Some err)
        with assms Inr t dl True hd sp have "st' = st3"
          by (simp add: process_url_def Let_def fname_def path_def w1_def)
        with a3 show ?thesis by simp
      qed
    qed
  qed
qed

lemma run_batch_extends:
  "run_batch cfg e batch st = (st', r) \<Longrightarrow> extends st st'"
proof (induction batch arbitrary: st)
  case Nil
  then show ?case by (simp add: extends_refl)
next
  case (Cons url rest)
  obtain st1 r1 where step: "process_url cfg e url st = (st1, r1)"
    by (cases "process_url cfg e url st")
  have a: "extends st st1" using step by (rule process_url_extends)
  show ?case
  proof (cases r1)
    case None
    with Cons.prems step have "run_batch cfg e rest st1 = (st', r)" by simp
    then have "extends st1 st'" by (rule Cons.IH)
    with a show ?thesis by (rule extends_trans)
  next
    case (Some err)
    with Cons.prems step have "st' = st1" by simp
    with a show ?thesis by simp
  qed
qed

lemma run_batch_append:
  "run_batch cfg e done st = (st1, None) \<Longrightarrow>
     run_batch cfg e (done @ rest) st = run_batch cfg e rest st1"
proof (induction "done" arbitrary: st)
  case Nil
  then show ?case by simp
next
  case (Cons url more)
  obtain st2 r2 where step: "process_url cfg e url st = (st2, r2)"
    by (cases "process_url cfg e url st")
  show ?case
  proof (cases r2)
    case None
    with Cons.prems step have "run_batch cfg e more st2 = (st1, None)" by simp
    then have "run_batch cfg e (more @ rest) st2 = run_batch cfg e rest st1" by (rule Cons.IH)
    with step None show ?thesis by simp
  next
    case (Some err)
    with Cons.prems step show ?thesis by simp
  qed
qed

lemma setup_dirs_effect:
  assumes "setup_dirs cfg w = Inr w1"
  shows "w1 = w\<lparr>dirs := dirs w @ (if parent_file_only cfg then [parent_dir_of cfg]
                                   else [parent_dir_of cfg, split_output_dir cfg])\<rparr>"
  using assms
  by (auto simp: setup_dirs_def makedirs_def split: if_splits sum.splits)

lemma split_filter_missing:
  "find_hdu hdul (''SUBARU_HSC.'' @ filt) = None \<Longrightarrow>
     split_filter od hdul sn sh v filt (w, cat) =
       ((print (NoExtension (''SUBARU_HSC.'' @ filt) (fname_parent_of sn sh v)) w, cat), None)"
  by (simp add: split_filter_def)

lemma split_filters_all_missing:
  "\<forall>filt\<in>set fs. find_hdu hdul (''SUBARU_HSC.'' @ filt) = None \<Longrightarrow>
     split_filters od hdul sn sh v fs (w, cat) =
       ((w\<lparr>printed := printed w @
            map (\<lambda>filt. NoExtension (''SUBARU_HSC.'' @ filt) (fname_parent_of sn sh v)) fs\<rparr>,
         cat), None)"
proof (induction fs arbitrary: w)
  case Nil
  show ?case by simp
next
  case (Cons f fs)
  then show ?case by (simp add: split_filter_missing print_def)
qed

lemma setup_dirs_files:
  "setup_dirs cfg w = Inr w1 \<Longrightarrow>
     files w1 = files w \<and> fetched w1 = fetched w \<and> printed w1 = printed w \<and> pauses w1 = pauses w"
  by (auto simp: setup_dirs_def makedirs_def split: if_splits sum.splits)

subsection \<open>The empty batch\<close>

text \<open>
  Claim C6. If the directories can be ensured, the list of locators can be read and the
  batch selected from it is empty, the pipeline prints the warning and returns without an
  exception; the world it leaves differs from the one it found only in the directories
  ensured by lines 140 and 144 and in the warning: no request was issued, no file was
  written (no split image, and no catalog whatever \<open>catalog_path\<close> is), no pause taken.
\<close>

theorem empty_batch_is_clean:
  assumes "setup_dirs cfg w = Inr w1"
    and "load_urls w1 (URL_LIST cfg) = Inr urls"
    and "select_batch urls (BATCH_START cfg) (BATCH_SIZE cfg) = []"
  shows "download_and_split_hsc_images cfg e w =
           (w\<lparr>dirs := dirs w @ (if parent_file_only cfg then [parent_dir_of cfg]
                                 else [parent_dir_of cfg, split_output_dir cfg]),
               printed := printed w @ [NoUrls]\<rparr>, None)
       \<and> files (fst (download_and_split_hsc_images cfg e w)) = files w
       \<and> fetched (fst (download_and_split_hsc_images cfg e w)) = fetched w
       \<and> pauses (fst (download_and_split_hsc_images cfg e w)) = pauses w"
proof -
  have "download_and_split_hsc_images cfg e w = (print NoUrls w1, None)"
    using assms by (simp add: download_and_split_hsc_images_def)
  moreover have "w1 = w\<lparr>dirs := dirs w @ (if parent_file_only cfg then [parent_dir_of cfg]
                                   else [parent_dir_of cfg, split_output_dir cfg])\<rparr>"
    using assms(1) by (rule setup_dirs_effect)
  ultimately show ?thesis by (simp add: print_def)
qed

theorem empty_batch_is_clean_witness:
  "download_and_split_hsc_images (ex_cfg\<lparr>BATCH_START := Some 4\<rparr>) ex_env (ex_world [ex_url]) =
     ((ex_world [ex_url])\<lparr>dirs := [''split_images'', ''split_images''], printed := [NoUrls]\<rparr>, None)
   \<and> catalog_path (ex_cfg\<lparr>BATCH_START := Some 4\<rparr>) = Some ''catalog.fits''
   \<and> files (fst (download_and_split_hsc_images (ex_cfg\<lparr>BATCH_START := Some 4\<rparr>) ex_env
        (ex_world [ex_url]))) ''catalog.fits'' = Some (TextFile [''old''])"
proof -
  let ?cfg = "ex_cfg\<lparr>BATCH_START := Some 4\<rparr>"
  let ?w = "ex_world [ex_url]"
  let ?w1 = "?w\<lparr>dirs := [''split_images'', ''split_images'']\<rparr>"
  have a: "setup_dirs ?cfg ?w = Inr ?w1"
    by (simp add: setup_dirs_def makedirs_def parent_dir_of_def ex_cfg_def ex_world_def)
  have b: "load_urls ?w1 (URL_LIST ?cfg) = Inr [ex_url]"
    by (simp add: load_urls_def ex_cfg_def ex_world_def ex_url_def strip_def is_space_def)
  have c: "select_batch [ex_url] (BATCH_START ?cfg) (BATCH_SIZE ?cfg) = []"
    by (simp add: select_batch_def py_slice_def slice_index_def ex_cfg_def)
  from empty_batch_is_clean [OF a b c, of ex_env] show ?thesis
    by (simp add: ex_cfg_def ex_world_def parent_dir_of_def)
qed

subsection \<open>A download that fails\<close>

text \<open>
  Claim C7, as stated, fails when a status that is not a success is any status outside 200
  to 299: line 181 raises only for the statuses from 400 to 599. Here the archive answers
  the second of three locators with status 304. With only the parent files fetched, and
  with splitting on and a container as the body, the invocation ends without an exception,
  all three locators are requested, and in the second run the catalog is written, with a
  row from the item that had the status 304.
\<close>

theorem non_2xx_status_counterexample:
  "\<not> (200 \<le> (304::nat) \<and> (304::nat) < 300)
   \<and> remote (ex_env_status 304 Opaque) ex_url3 (Some ''key'') = Response 304 Opaque
   \<and> snd (download_and_split_hsc_images (ex_cfg\<lparr>parent_file_only := True\<rparr>)
            (ex_env_status 304 Opaque) (ex_world [ex_url, ex_url3, ex_url2])) = None
   \<and> map fst (fetched (fst (download_and_split_hsc_images (ex_cfg\<lparr>parent_file_only := True\<rparr>)
            (ex_env_status 304 Opaque) (ex_world [ex_url, ex_url3, ex_url2]))))
       = [ex_url, ex_url3, ex_url2]
   \<and> remote (ex_env_status 304 (Container [ex_hdu_G])) ex_url3 (Some ''key'')
       = Response 304 (Container [ex_hdu_G])
   \<and> snd (download_and_split_hsc_images ex_cfg (ex_env_status 304 (Container [ex_hdu_G]))
            (ex_world [ex_url, ex_url3, ex_url2])) = None
   \<and> map fst (fetched (fst (download_and_split_hsc_images ex_cfg
            (ex_env_status 304 (Container [ex_hdu_G])) (ex_world [ex_url, ex_url3, ex_url2]))))
       = [ex_url, ex_url3, ex_url2]
   \<and> files (fst (download_and_split_hsc_images ex_cfg
            (ex_env_status 304 (Container [ex_hdu_G])) (ex_world [ex_url, ex_url3, ex_url2])))
         ''catalog.fits''
       = Some (TableFile [''object_id'', ''filename'', ''filter'']
           [[(''object_id'', IntCell 72000000),
             (''filename'', StrCell ''72_0_G_v2_hsc_realistic.fits''),
             (''filter'', StrCell ''G'')],
            [(''object_id'', IntCell 72000002),
             (''filename'', StrCell ''72_2_G_v?_hsc_realistic.fits''),
             (''filter'', StrCell ''G'')]])"
  by code_simp

text \<open>
  Claim C7, amended. Let the batch be \<open>done @ url # rest\<close>, where the locators of \<open>done\<close>
  were processed without an exception, \<open>url\<close> parses, and the archive answers \<open>url\<close> with a
  status from 400 to 599. Then the invocation ends with that \<^verbatim>\<open>HTTPError\<close>; the world it
  leaves is the world after \<open>done\<close> with one line printed and one request for \<open>url\<close> added
  (no second request, nothing for \<open>rest\<close>, no file written); and no path holds a table
  that it did not hold before the invocation, whatever entries \<open>done\<close> had added.
\<close>

theorem http_error_aborts_batch:
  assumes "setup_dirs cfg w = Inr w1"
    and "load_urls w1 (URL_LIST cfg) = Inr urls"
    and "select_batch urls (BATCH_START cfg) (BATCH_SIZE cfg) = done @ url # rest"
    and "run_batch cfg e done (w1, if truthy (catalog_path cfg) then Some [] else None)
           = ((w2, entries), None)"
    and "parse_url url = Inr (snapshot, subhalo, version)"
    and "remote e url (API_KEY cfg) = Response code body"
    and "400 \<le> code" and "code < 600"
  shows "download_and_split_hsc_images cfg e w =
           ((print (Downloading (fname_parent_of snapshot subhalo version) (parent_dir_of cfg)) w2)
              \<lparr>fetched := fetched w2 @ [(url, API_KEY cfg)]\<rparr>,
            Some (HTTPError code))
       \<and> files (fst (download_and_split_hsc_images cfg e w)) = files w2
       \<and> (\<forall>p names rows.
            files (fst (download_and_split_hsc_images cfg e w)) p = Some (TableFile names rows)
              \<longrightarrow> files w p = Some (TableFile names rows))"
proof -
  let ?c0 = "if truthy (catalog_path cfg) then Some [] else None"
  let ?w3 = "(print (Downloading (fname_parent_of snapshot subhalo version) (parent_dir_of cfg)) w2)
              \<lparr>fetched := fetched w2 @ [(url, API_KEY cfg)]\<rparr>"
  from assms(7,8) have err: "raise_for_status code = Some (HTTPError code)"
    by (simp add: raise_for_status_def)
  have step: "process_url cfg e url (w2, entries) = ((?w3, entries), Some (HTTPError code))"
    using assms(5,6) err
    by (simp add: process_url_def download_parent_def Let_def print_def)
  have "run_batch cfg e (done @ url # rest) (w1, ?c0) = run_batch cfg e (url # rest) (w2, entries)"
    using assms(4) by (rule run_batch_append)
  with step have loop:
    "run_batch cfg e (done @ url # rest) (w1, ?c0) = ((?w3, entries), Some (HTTPError code))"
    by simp
  have res: "download_and_split_hsc_images cfg e w = (?w3, Some (HTTPError code))"
    using assms(1,2,3) loop by (simp add: download_and_split_hsc_images_def Let_def)
  have "extends (w1, ?c0) (w2, entries)" using assms(4) by (rule run_batch_extends)
  then have "world_grows w1 w2" by (simp add: extends_def)
  moreover have "files w1 = files w" using assms(1) by (simp add: setup_dirs_files)
  ultimately have "\<forall>p names rows. files w2 p = Some (TableFile names rows)
                     \<longrightarrow> files w p = Some (TableFile names rows)"
    by (simp add: world_grows_def)
  with res show ?thesis by (simp add: print_def)
qed

theorem http_error_aborts_batch_witness:
  "snd (download_and_split_hsc_images ex_cfg ex_env (ex_world [ex_url, ex_url3, ex_url2]))
     = Some (HTTPError 404)
   \<and> map fst (fetched (fst (download_and_split_hsc_images ex_cfg ex_env
        (ex_world [ex_url, ex_url3, ex_url2])))) = [ex_url, ex_url3]
   \<and> files (fst (download_and_split_hsc_images ex_cfg ex_env
        (ex_world [ex_url, ex_url3, ex_url2]))) ''catalog.fits'' = Some (TextFile [''old''])"
proof -
  let ?w = "ex_world [ex_url, ex_url3, ex_url2]"
  let ?w1 = "?w\<lparr>dirs := [''split_images'', ''split_images'']\<rparr>"
  let ?run = "run_batch ex_cfg ex_env [ex_url]
                (?w1, if truthy (catalog_path ex_cfg) then Some [] else None)"
  have a: "setup_dirs ex_cfg ?w = Inr ?w1"
    by (simp add: setup_dirs_def makedirs_def parent_dir_of_def ex_cfg_def ex_world_def)
  have b: "load_urls ?w1 (URL_LIST ex_cfg) = Inr [ex_url, ex_url3, ex_url2]"
    by (simp add: load_urls_def ex_cfg_def ex_world_def ex_url_def ex_url2_def ex_url3_def
                  strip_def is_space_def)
  have c: "select_batch [ex_url, ex_url3, ex_url2] (BATCH_START ex_cfg) (BATCH_SIZE ex_cfg)
             = [ex_url] @ ex_url3 # [ex_url2]"
    by (simp add: select_batch_def py_slice_def slice_index_def ex_cfg_def)
  have "snd ?run = None" by code_simp
  then have d: "?run = ((fst (fst ?run), snd (fst ?run)), None)"
    by (cases ?run) simp
  have e: "parse_url ex_url3 = Inr (''72'', ''2'', ''v?'')"
    by code_simp
  have f: "remote ex_env ex_url3 (API_KEY ex_cfg) = Response 404 Opaque"
    by code_simp
  have g1: "400 \<le> (404::nat)" by simp
  have g2: "(404::nat) < 600" by simp
  have h: "map fst (fetched (fst (fst ?run))) = [ex_url]" by code_simp
  have i: "files (fst (fst ?run)) ''catalog.fits'' = Some (TextFile [''old''])" by code_simp
  from http_error_aborts_batch [OF a b c d e f g1 g2] h i show ?thesis
    by (simp add: print_def)
qed

subsection \<open>Bands that are missing\<close>

text \<open>
  Claim C8. For each band, when no extension of the container is named
  \<^verbatim>\<open>SUBARU_HSC.<band>\<close>, the step for that band prints the warning, changes nothing else,
  raises nothing, and the loop goes on with the next band. When a locator parses, its
  download succeeds with a container, splitting is on, and all five bands are missing,
  the item ends without an exception and with the catalog entries as they were, the five
  warnings were printed after the download line, no path but the parent file's changed,
  and the main loop goes on with the rest of the batch.
\<close>

theorem missing_bands_are_skipped:
  "(\<forall>filt fs st. find_hdu hdul (''SUBARU_HSC.'' @ filt) = None \<longrightarrow>
      split_filter od hdul snapshot subhalo version filt st =
        ((print (NoExtension (''SUBARU_HSC.'' @ filt) (fname_parent_of snapshot subhalo version))
            (fst st), snd st), None)
      \<and> split_filters od hdul snapshot subhalo version (filt # fs) st =
          split_filters od hdul snapshot subhalo version fs
            (print (NoExtension (''SUBARU_HSC.'' @ filt) (fname_parent_of snapshot subhalo version))
               (fst st), snd st))
   \<and> (parse_url url = Inr (snapshot, subhalo, version)
        \<and> remote e url (API_KEY cfg) = Response code (Container hdul)
        \<and> raise_for_status code = None
        \<and> \<not> parent_file_only cfg
        \<and> (\<forall>filt\<in>set bands. find_hdu hdul (''SUBARU_HSC.'' @ filt) = None)
      \<longrightarrow> (\<exists>w' ms. process_url cfg e url (w, entries) = ((w', entries), None)
             \<and> run_batch cfg e (url # rest) (w, entries) = run_batch cfg e rest (w', entries)
             \<and> printed w' = printed w
                 @ Downloading (fname_parent_of snapshot subhalo version) (parent_dir_of cfg)
                 # map (\<lambda>filt. NoExtension (''SUBARU_HSC.'' @ filt)
                                 (fname_parent_of snapshot subhalo version)) bands
                 @ ms
             \<and> (\<forall>p. p \<noteq> os_path_join (parent_dir_of cfg) (fname_parent_of snapshot subhalo version)
                    \<longrightarrow> files w' p = files w p)))"
proof (intro conjI allI impI)
  fix filt fs st
  assume miss: "find_hdu hdul (''SUBARU_HSC.'' @ filt) = None"
  then show one: "split_filter od hdul snapshot subhalo version filt st =
        ((print (NoExtension (''SUBARU_HSC.'' @ filt) (fname_parent_of snapshot subhalo version))
            (fst st), snd st), None)"
    using split_filter_missing [of hdul filt od snapshot subhalo version "fst st" "snd st"]
    by simp
  then show "split_filters od hdul snapshot subhalo version (filt # fs) st =
          split_filters od hdul snapshot subhalo version fs
            (print (NoExtension (''SUBARU_HSC.'' @ filt) (fname_parent_of snapshot subhalo version))
               (fst st), snd st)"
    by simp
next
  assume h: "parse_url url = Inr (snapshot, subhalo, version)
        \<and> remote e url (API_KEY cfg) = Response code (Container hdul)
        \<and> raise_for_status code = None
        \<and> \<not> parent_file_only cfg
        \<and> (\<forall>filt\<in>set bands. find_hdu hdul (''SUBARU_HSC.'' @ filt) = None)"
  define fname where "fname = fname_parent_of snapshot subhalo version"
  define path where "path = os_path_join (parent_dir_of cfg) fname"
  define w1 where "w1 = print (Downloading fname (parent_dir_of cfg)) w"
  define w2 where "w2 = w1\<lparr>fetched := fetched w1 @ [(url, API_KEY cfg)],
                           files := (files w1)(path \<mapsto> ParentFile (Container hdul))\<rparr>"
  define w3 where "w3 = w2\<lparr>printed := printed w2 @
                     map (\<lambda>filt. NoExtension (''SUBARU_HSC.'' @ filt) fname) bands\<rparr>"
  define w4 where "w4 = (if remove_parent cfg then cleanup_parent e path fname w3 else w3)"
  define w5 where "w5 = w4\<lparr>pauses := Suc (pauses w4)\<rparr>"
  have dl: "download_parent e (API_KEY cfg) url path w1 = (w2, None)"
    using h by (simp add: download_parent_def w2_def Let_def)
  have op: "fits_open w2 path = Inr hdul"
    by (simp add: fits_open_def w2_def)
  have sp: "split_filters (split_output_dir cfg) hdul snapshot subhalo version bands (w2, entries)
              = ((w3, entries), None)"
    using h by (simp add: split_filters_all_missing w3_def fname_def)
  have step: "process_url cfg e url (w, entries) = ((w5, entries), None)"
    using h dl op sp unfolding w5_def w4_def
    by (auto simp: process_url_def Let_def fname_def path_def w1_def)
  have pr: "\<exists>ms. printed w5 = printed w @ Downloading fname (parent_dir_of cfg)
                 # map (\<lambda>filt. NoExtension (''SUBARU_HSC.'' @ filt) fname) bands @ ms"
    by (auto simp: w5_def w4_def w3_def w2_def w1_def print_def cleanup_parent_def os_remove_def
             split: sum.splits)
  have fl: "\<forall>p. p \<noteq> path \<longrightarrow> files w5 p = files w p"
    by (auto simp: w5_def w4_def w3_def w2_def w1_def print_def cleanup_parent_def os_remove_def
             split: sum.splits if_splits)
  from step pr fl
  show "\<exists>w' ms. process_url cfg e url (w, entries) = ((w', entries), None)
             \<and> run_batch cfg e (url # rest) (w, entries) = run_batch cfg e rest (w', entries)
             \<and> printed w' = printed w
                 @ Downloading (fname_parent_of snapshot subhalo version) (parent_dir_of cfg)
                 # map (\<lambda>filt. NoExtension (''SUBARU_HSC.'' @ filt)
                                 (fname_parent_of snapshot subhalo version)) bands
                 @ ms
             \<and> (\<forall>p. p \<noteq> os_path_join (parent_dir_of cfg) (fname_parent_of snapshot subhalo version)
                    \<longrightarrow> files w' p = files w p)"
    by (auto simp: fname_def path_def)
qed

theorem missing_bands_are_skipped_witness:
  "find_hdu [ex_hdu_other] (''SUBARU_HSC.'' @ ''G'') = None
   \<and> split_filter ''split_images'' [ex_hdu_other] ''72'' ''1'' ''v2'' ''G'' (ex_world [], Some []) =
       ((print (NoExtension ''SUBARU_HSC.G'' ''72_1_v2_parent.fits'') (ex_world []), Some []), None)
   \<and> (\<exists>w'. process_url ex_cfg ex_env ex_url2 (ex_world [], Some []) = ((w', Some []), None)
         \<and> run_batch ex_cfg ex_env [ex_url2, ex_url] (ex_world [], Some [])
             = run_batch ex_cfg ex_env [ex_url] (w', Some []))"
proof -
  have miss: "\<forall>filt\<in>set bands. find_hdu [ex_hdu_other] (''SUBARU_HSC.'' @ filt) = None"
    by (simp add: bands_def find_hdu_def header_get_def ex_hdu_other_def)
  have p1: "parse_url ex_url2 = Inr (''72'', ''1'', ''v2'')" by code_simp
  have p2: "remote ex_env ex_url2 (API_KEY ex_cfg) = Response 200 (Container [ex_hdu_other])"
    by code_simp
  have p3: "raise_for_status 200 = None" by (simp add: raise_for_status_def)
  have p4: "\<not> parent_file_only ex_cfg" by (simp add: ex_cfg_def)
  have g: "find_hdu [ex_hdu_other] (''SUBARU_HSC.'' @ ''G'') = None"
    using miss by (simp add: bands_def)
  note inst = missing_bands_are_skipped [where hdul = "[ex_hdu_other]" and od = "''split_images''"
      and snapshot = "''72''" and subhalo = "''1''" and version = "''v2''" and url = ex_url2
      and e = ex_env and cfg = ex_cfg and code = 200 and w = "ex_world []"
      and entries = "Some []" and rest = "[ex_url]"]
  from inst [THEN conjunct1, rule_format, OF g, where st = "(ex_world [], Some [])"]
  have one:
    "split_filter ''split_images'' [ex_hdu_other] ''72'' ''1'' ''v2'' ''G'' (ex_world [], Some []) =
       ((print (NoExtension ''SUBARU_HSC.G'' ''72_1_v2_parent.fits'') (ex_world []), Some []), None)"
    by (simp add: fname_parent_of_def)
  from inst [THEN conjunct2, THEN mp, OF conjI [OF p1 conjI [OF p2 conjI [OF p3 conjI [OF p4 miss]]]]]
  have two:
    "\<exists>w'. process_url ex_cfg ex_env ex_url2 (ex_world [], Some []) = ((w', Some []), None)
         \<and> run_batch ex_cfg ex_env [ex_url2, ex_url] (ex_world [], Some [])
             = run_batch ex_cfg ex_env [ex_url] (w', Some [])"
    by (elim exE conjE, intro exI conjI)
  from g one two show ?thesis by simp
qed

subsection \<open>The catalog\<close>




text \<open>
  Claim C1, as stated, fails: the third column of the table the pipeline writes is named
  \<^verbatim>\<open>filter\<close>, not \<^verbatim>\<open>band\<close>. Here a catalog was asked for, splitting is on, the run ends
  without an exception, and the table at the path has the columns \<^verbatim>\<open>object_id\<close>,
  \<^verbatim>\<open>filename\<close>, \<^verbatim>\<open>filter\<close>.
\<close>

theorem catalog_columns_counterexample:
  "catalog_path ex_cfg = Some ''catalog.fits'' \<and> \<not> parent_file_only ex_cfg
   \<and> download_and_split_hsc_images ex_cfg ex_env (ex_world [ex_url]) =
       (fst (download_and_split_hsc_images ex_cfg ex_env (ex_world [ex_url])), None)
   \<and> files (fst (download_and_split_hsc_images ex_cfg ex_env (ex_world [ex_url]))) ''catalog.fits''
       = Some (TableFile [''object_id'', ''filename'', ''filter'']
           [[(''object_id'', IntCell 72000000),
             (''filename'', StrCell ''72_0_G_v2_hsc_realistic.fits''),
             (''filter'', StrCell ''G'')]])
   \<and> (\<forall>rows. files (fst (download_and_split_hsc_images ex_cfg ex_env (ex_world [ex_url])))
         ''catalog.fits'' \<noteq> Some (TableFile [''object_id'', ''filename'', ''band''] rows))"
proof -
  let ?r = "download_and_split_hsc_images ex_cfg ex_env (ex_world [ex_url])"
  have a: "catalog_path ex_cfg = Some ''catalog.fits'' \<and> \<not> parent_file_only ex_cfg"
    by (simp add: ex_cfg_def)
  have "snd ?r = None" by code_simp
  then have b: "?r = (fst ?r, None)" by (cases ?r) simp
  have c: "files (fst ?r) ''catalog.fits''
       = Some (TableFile [''object_id'', ''filename'', ''filter'']
           [[(''object_id'', IntCell 72000000),
             (''filename'', StrCell ''72_0_G_v2_hsc_realistic.fits''),
             (''filter'', StrCell ''G'')]])"
    by code_simp
  from a b c show ?thesis by simp
qed

text \<open>
  Claim C1, amended. If the directories can be ensured and the list read, the batch is not
  empty, a non-empty \<open>catalog_path\<close> was given, splitting is on, and the main loop and the
  invocation ended without an exception, then at the end of the batch the path holds one
  table with exactly the three columns \<^verbatim>\<open>object_id\<close>, \<^verbatim>\<open>filename\<close>, \<^verbatim>\<open>filter\<close>, in that
  order, whose rows are the accumulated entries, each with these three keys; whatever the
  path held before is replaced.
\<close>

theorem catalog_table_columns:
  assumes "setup_dirs cfg w = Inr w1"
    and "load_urls w1 (URL_LIST cfg) = Inr urls"
    and "select_batch urls (BATCH_START cfg) (BATCH_SIZE cfg) \<noteq> []"
    and "catalog_path cfg = Some p" and "p \<noteq> []"
    and "\<not> parent_file_only cfg"
    and "run_batch cfg e (select_batch urls (BATCH_START cfg) (BATCH_SIZE cfg)) (w1, Some [])
           = ((w2, entries), None)"
    and "snd (download_and_split_hsc_images cfg e w) = None"
  shows "\<exists>rows. entries = Some rows
       \<and> (\<forall>row\<in>set rows. map fst row = [''object_id'', ''filename'', ''filter''])
       \<and> download_and_split_hsc_images cfg e w =
           (print (WroteCatalog (length rows) p)
              (w2\<lparr>files := (files w2)(p \<mapsto> TableFile [''object_id'', ''filename'', ''filter''] rows)\<rparr>),
            None)
       \<and> files (fst (download_and_split_hsc_images cfg e w)) p =
           Some (TableFile [''object_id'', ''filename'', ''filter''] rows)"
proof -
  have "extends (w1, Some []) (w2, entries)" using assms(7) by (rule run_batch_extends)
  then have "entries_grow (Some []) entries" by (simp add: extends_def)
  then obtain rows where rows: "entries = Some rows"
    and keys: "\<forall>row\<in>set rows. map fst row = catalog_columns"
    by (auto simp: entries_grow_def)
  have "truthy (catalog_path cfg)" using assms(4,5) by (simp add: truthy_def)
  then have res: "download_and_split_hsc_images cfg e w = write_catalog cfg e (w2, Some rows)"
    using assms(1,2,3,7) rows by (simp add: download_and_split_hsc_images_def Let_def)
  with assms(4,6,8) have lib: "table_error e catalog_columns rows p = None"
    by (auto simp: write_catalog_def split: option.splits)
  from res have "download_and_split_hsc_images cfg e w =
           (print (WroteCatalog (length rows) p)
              (w2\<lparr>files := (files w2)(p \<mapsto> TableFile [''object_id'', ''filename'', ''filter''] rows)\<rparr>),
            None)"
    using assms(4,6) lib by (simp add: write_catalog_def catalog_columns_def)
  with rows keys show ?thesis by (simp add: catalog_columns_def print_def)
qed

theorem catalog_table_columns_witness:
  "snd (download_and_split_hsc_images ex_cfg ex_env (ex_world [ex_url, ex_url2])) = None
   \<and> files (ex_world [ex_url, ex_url2]) ''catalog.fits'' = Some (TextFile [''old''])
   \<and> (\<exists>rows. files (fst (download_and_split_hsc_images ex_cfg ex_env (ex_world [ex_url, ex_url2])))
         ''catalog.fits'' = Some (TableFile [''object_id'', ''filename'', ''filter''] rows))"
proof -
  let ?w = "ex_world [ex_url, ex_url2]"
  let ?w1 = "?w\<lparr>dirs := [''split_images'', ''split_images'']\<rparr>"
  let ?batch = "select_batch [ex_url, ex_url2] (BATCH_START ex_cfg) (BATCH_SIZE ex_cfg)"
  let ?run = "run_batch ex_cfg ex_env ?batch (?w1, Some [])"
  have a: "setup_dirs ex_cfg ?w = Inr ?w1"
    by (simp add: setup_dirs_def makedirs_def parent_dir_of_def ex_cfg_def ex_world_def)
  have b: "load_urls ?w1 (URL_LIST ex_cfg) = Inr [ex_url, ex_url2]"
    by (simp add: load_urls_def ex_cfg_def ex_world_def ex_url_def ex_url2_def strip_def
                  is_space_def)
  have c: "?batch \<noteq> []"
    by (simp add: select_batch_def py_slice_def slice_index_def ex_cfg_def)
  have d: "catalog_path ex_cfg = Some ''catalog.fits''" by (simp add: ex_cfg_def)
  have e: "''catalog.fits'' \<noteq> []" by simp
  have f: "\<not> parent_file_only ex_cfg" by (simp add: ex_cfg_def)
  have "snd ?run = None" by code_simp
  then have g: "?run = ((fst (fst ?run), snd (fst ?run)), None)"
    by (cases ?run) auto
  have h: "snd (download_and_split_hsc_images ex_cfg ex_env ?w) = None"
    by code_simp
  have old: "files ?w ''catalog.fits'' = Some (TextFile [''old''])"
    by (simp add: ex_world_def)
  from catalog_table_columns [OF a b c d e f g h] h old show ?thesis by auto
qed

subsection \<open>The credential\<close>

text \<open>
  Claim C10. When the explicit key is \<^verbatim>\<open>None\<close> or empty, the result is decided by the
  environment variable: its value when it is set and not empty, and \<^verbatim>\<open>SystemExit\<close>
  otherwise. A key that is returned is never empty. And when both are absent or empty,
  the entry point ends with \<^verbatim>\<open>SystemExit\<close> in the world it started in, for either
  command: no request was issued and nothing was written.
\<close>

theorem resolve_api_key_fallback:
  "(explicit = None \<or> explicit = Some [] \<longrightarrow>
      resolve_api_key explicit environ_key command_name =
        (case environ_key of
           None \<Rightarrow> Inl (SystemExit (missing_key_message command_name))
         | Some k \<Rightarrow> if k = [] then Inl (SystemExit (missing_key_message command_name))
                     else Inr k))
   \<and> (\<forall>k. resolve_api_key explicit environ_key command_name = Inr k \<longrightarrow> k \<noteq> [])
   \<and> ((explicit = None \<or> explicit = Some []) \<and> (environ_key = None \<or> environ_key = Some [])
        \<longrightarrow> main (Split (cfg\<lparr>API_KEY := explicit\<rparr>)) environ_key e w
              = (w, Some (SystemExit (missing_key_message ''split'')))
          \<and> main (Fetch (args\<lparr>api_key := explicit\<rparr>)) environ_key e w
              = (w, Some (SystemExit (missing_key_message ''fetch''))))"
  by (auto simp: resolve_api_key_def main_def truthy_def Let_def split: option.splits if_splits)

theorem resolve_api_key_fallback_witness:
  "resolve_api_key None (Some ''abc'') ''split'' = Inr ''abc''
   \<and> resolve_api_key (Some []) None ''fetch'' = Inl (SystemExit (missing_key_message ''fetch''))
   \<and> main (Split (ex_cfg\<lparr>API_KEY := Some []\<rparr>)) (Some []) ex_env (ex_world [ex_url])
       = (ex_world [ex_url], Some (SystemExit (missing_key_message ''split'')))"
proof -
  have a: "resolve_api_key None (Some ''abc'') ''split'' = Inr ''abc''"
    using resolve_api_key_fallback [of None "Some ''abc''" "''split''"] by simp
  have b: "resolve_api_key (Some []) None ''fetch''
             = Inl (SystemExit (missing_key_message ''fetch''))"
    using resolve_api_key_fallback [of "Some []" None "''fetch''"] by simp
  have c: "main (Split (ex_cfg\<lparr>API_KEY := Some []\<rparr>)) (Some []) ex_env (ex_world [ex_url])
       = (ex_world [ex_url], Some (SystemExit (missing_key_message ''split'')))"
    using resolve_api_key_fallback [of "Some []" "Some []" _ ex_cfg ex_env "ex_world [ex_url]"]
    by simp
  from a b c show ?thesis by simp
qed

subsection \<open>The example locator\<close>

text \<open>What the loop over the filters does to the files, step by step.\<close>

lemma split_filter_no_error:
  "py_int sn = Inr s \<Longrightarrow> py_int sh = Inr hh \<Longrightarrow>
     snd (split_filter od hdul sn sh v f st) = None"
  by (simp add: split_filter_def Let_def split: option.splits)

lemma split_filters_no_error:
  "py_int sn = Inr s \<Longrightarrow> py_int sh = Inr hh \<Longrightarrow>
     snd (split_filters od hdul sn sh v fs st) = None"
proof (induction fs arbitrary: st)
  case Nil
  show ?case by simp
next
  case (Cons f fs)
  from Cons.prems have "snd (split_filter od hdul sn sh v f st) = None"
    by (rule split_filter_no_error)
  then obtain st1 where "split_filter od hdul sn sh v f st = (st1, None)"
    by (cases "split_filter od hdul sn sh v f st") simp
  with Cons show ?case by simp
qed

lemma split_filter_other_path:
  "os_path_join od (out_name_of sn sh f v) \<noteq> p \<Longrightarrow>
     files (fst (fst (split_filter od hdul sn sh v f st))) p = files (fst st) p"
  by (simp add: split_filter_def Let_def print_def split: option.splits sum.splits)

lemma split_filters_other_paths:
  "\<forall>f\<in>set fs. os_path_join od (out_name_of sn sh f v) \<noteq> p \<Longrightarrow>
     files (fst (fst (split_filters od hdul sn sh v fs st))) p = files (fst st) p"
proof (induction fs arbitrary: st)
  case Nil
  show ?case by simp
next
  case (Cons f fs)
  obtain st1 r1 where step: "split_filter od hdul sn sh v f st = (st1, r1)"
    by (cases "split_filter od hdul sn sh v f st")
  from Cons.prems have "files (fst (fst (split_filter od hdul sn sh v f st))) p = files (fst st) p"
    by (simp add: split_filter_other_path)
  with step have a: "files (fst st1) p = files (fst st) p" by simp
  show ?case
  proof (cases r1)
    case None
    from Cons.prems have "files (fst (fst (split_filters od hdul sn sh v fs st1))) p
                            = files (fst st1) p"
      by (simp add: Cons.IH)
    with step None a show ?thesis by simp
  next
    case (Some err)
    with step a show ?thesis by simp
  qed
qed

lemma split_filter_found:
  "find_hdu hdul (''SUBARU_HSC.'' @ f) = Some h \<Longrightarrow>
     files (fst (fst (split_filter od hdul sn sh v f st))) (os_path_join od (out_name_of sn sh f v))
       = Some (SplitFile h)"
  by (simp add: split_filter_def Let_def print_def split: option.splits sum.splits)

text \<open>Two joined paths that are equal end alike, so the parent file and the split
  images never share a path.\<close>

lemma os_path_join_suffix:
  "b \<noteq> [] \<Longrightarrow> hd b \<noteq> CHR ''/'' \<Longrightarrow> \<exists>pre. os_path_join a b = pre @ b"
  by (auto simp: os_path_join_def)

lemma same_path_same_ending:
  assumes "os_path_join a b = os_path_join c d"
    and "b \<noteq> []" "hd b \<noteq> CHR ''/''" "d \<noteq> []" "hd d \<noteq> CHR ''/''"
    and "n \<le> length b" "n \<le> length d"
  shows "take n (rev b) = take n (rev d)"
proof -
  from assms(2,3) obtain pre where 1: "os_path_join a b = pre @ b"
    using os_path_join_suffix by blast
  from assms(4,5) obtain pre' where 2: "os_path_join c d = pre' @ d"
    using os_path_join_suffix by blast
  from assms(1) 1 2 have "rev (pre @ b) = rev (pre' @ d)" by simp
  then have "take n (rev b @ rev pre) = take n (rev d @ rev pre')" by simp
  with assms(6,7) show ?thesis by simp
qed

lemma split_path_not_parent_path:
  "os_path_join od (out_name_of ''72'' ''0'' f ''v2'') \<noteq> os_path_join pd ''72_0_v2_parent.fits''"
proof
  assume eq: "os_path_join od (out_name_of ''72'' ''0'' f ''v2'')
                = os_path_join pd ''72_0_v2_parent.fits''"
  have "take 6 (rev (out_name_of ''72'' ''0'' f ''v2'')) = take 6 (rev ''72_0_v2_parent.fits'')"
    using eq by (rule same_path_same_ending) (simp_all add: out_name_of_def)
  then show False by (simp add: out_name_of_def)
qed

lemma other_band_paths_differ:
  "f \<in> set [''R'', ''I'', ''Z'', ''Y''] \<Longrightarrow>
     os_path_join od (out_name_of ''72'' ''0'' f ''v2'')
       \<noteq> os_path_join od (out_name_of ''72'' ''0'' ''G'' ''v2'')"
  by (auto simp: os_path_join_def out_name_of_def)


lemma parse_example_parts:
  assumes "split_on CHR ''/'' u = parts" and "8 < length parts"
    and "parts ! 6 = ''72''" and "parts ! 8 = ''0''"
    and "last parts = ''skirt_images_hsc_realistic_v2.fits''"
  shows "parse_url u = Inr (''72'', ''0'', ''v2'')"
  using assms by (simp add: parse_url_def Let_def is_digit_def)

lemma py_int_72_0: "py_int ''72'' = Inr 72 \<and> py_int ''0'' = Inr 0"
  by (simp add: py_int_def is_int_space_def parse_unsigned_def is_digit_def digit_val_def)

lemma process_example_item:
  assumes p: "parse_url u = Inr (''72'', ''0'', ''v2'')"
    and r: "remote e u (API_KEY cfg) = Response code (Container hdul)"
    and ok: "raise_for_status code = None"
    and sp: "\<not> parent_file_only cfg"
    and g: "find_hdu hdul ''SUBARU_HSC.G'' = Some h"
  shows "snd (process_url cfg e u (w, entries)) = None
       \<and> files (fst (fst (process_url cfg e u (w, entries))))
           (os_path_join (split_output_dir cfg) ''72_0_G_v2_hsc_realistic.fits'')
           = Some (SplitFile h)
       \<and> (\<not> remove_parent cfg \<longrightarrow>
            files (fst (fst (process_url cfg e u (w, entries))))
              (os_path_join (parent_dir_of cfg) ''72_0_v2_parent.fits'')
              = Some (ParentFile (Container hdul)))"
proof -
  define od where "od = split_output_dir cfg"
  define fname where "fname = fname_parent_of ''72'' ''0'' ''v2''"
  define path where "path = os_path_join (parent_dir_of cfg) fname"
  define gpath where "gpath = os_path_join od (out_name_of ''72'' ''0'' ''G'' ''v2'')"
  define w1 where "w1 = print (Downloading fname (parent_dir_of cfg)) w"
  define w2 where "w2 = w1\<lparr>fetched := fetched w1 @ [(u, API_KEY cfg)],
                           files := (files w1)(path \<mapsto> ParentFile (Container hdul))\<rparr>"
  define X where "X = split_filters od hdul ''72'' ''0'' ''v2'' bands (w2, entries)"
  define w4 where "w4 = (if remove_parent cfg then cleanup_parent e path fname (fst (fst X))
                         else fst (fst X))"
  have names: "fname = ''72_0_v2_parent.fits''"
    "out_name_of ''72'' ''0'' ''G'' ''v2'' = ''72_0_G_v2_hsc_realistic.fits''"
    by (simp_all add: fname_def fname_parent_of_def out_name_of_def)
  have dl: "download_parent e (API_KEY cfg) u path w1 = (w2, None)"
    using r ok by (simp add: download_parent_def w2_def Let_def)
  have op: "fits_open w2 path = Inr hdul"
    by (simp add: fits_open_def w2_def)
  have noerr: "snd X = None"
    unfolding X_def using py_int_72_0 split_filters_no_error by blast
  then have X: "X = (fst X, None)" by (cases X) simp
  have step: "process_url cfg e u (w, entries) = ((w4\<lparr>pauses := Suc (pauses w4)\<rparr>, snd (fst X)), None)"
    using p dl op sp X unfolding w4_def X_def od_def
    by (auto simp: process_url_def Let_def fname_def path_def w1_def split: prod.splits)
  define stG where "stG = fst (split_filter od hdul ''72'' ''0'' ''v2'' ''G'' (w2, entries))"
  have "snd (split_filter od hdul ''72'' ''0'' ''v2'' ''G'' (w2, entries)) = None"
    using py_int_72_0 split_filter_no_error by blast
  then have gstep: "split_filter od hdul ''72'' ''0'' ''v2'' ''G'' (w2, entries) = (stG, None)"
    by (cases "split_filter od hdul ''72'' ''0'' ''v2'' ''G'' (w2, entries)") (simp add: stG_def)
  have Xrest: "X = split_filters od hdul ''72'' ''0'' ''v2'' [''R'', ''I'', ''Z'', ''Y''] stG"
    using gstep by (simp add: X_def bands_def)
  have "files (fst stG) gpath = Some (SplitFile h)"
    unfolding stG_def gpath_def using g split_filter_found [of hdul "''G''" h] by simp
  moreover have "files (fst (fst X)) gpath = files (fst stG) gpath"
    unfolding Xrest gpath_def
    by (rule split_filters_other_paths) (use other_band_paths_differ in blast)
  ultimately have gX: "files (fst (fst X)) gpath = Some (SplitFile h)" by simp
  have ne: "gpath \<noteq> path"
    unfolding gpath_def path_def names(1) by (rule split_path_not_parent_path)
  have g4: "files w4 gpath = Some (SplitFile h)"
    using gX ne
    by (auto simp: w4_def cleanup_parent_def os_remove_def print_def split: sum.splits if_splits)
  have "files (fst (fst X)) path = files (fst (w2, entries)) path"
    unfolding X_def path_def names(1)
    by (rule split_filters_other_paths) (simp add: split_path_not_parent_path)
  then have pX: "files (fst (fst X)) path = Some (ParentFile (Container hdul))"
    by (simp add: w2_def)
  have p4: "\<not> remove_parent cfg \<longrightarrow> files w4 path = Some (ParentFile (Container hdul))"
    using pX by (simp add: w4_def)
  from step g4 p4 show ?thesis
    by (simp add: gpath_def path_def od_def names)
qed

text \<open>
  Claim C5. A locator whose component at index 6 is \<^verbatim>\<open>72\<close>, whose component at index 8 is
  \<^verbatim>\<open>0\<close> and whose last component is \<^verbatim>\<open>skirt_images_hsc_realistic_v2.fits\<close> parses to the
  snapshot \<^verbatim>\<open>72\<close>, the subhalo \<^verbatim>\<open>0\<close> (the integers 72 and 0) and the version \<^verbatim>\<open>v2\<close>. The
  parent file name is \<^verbatim>\<open>72_0_v2_parent.fits\<close> and the split file name of band G is
  \<^verbatim>\<open>72_0_G_v2_hsc_realistic.fits\<close>. When the download succeeds with a container that
  has an extension named \<^verbatim>\<open>SUBARU_HSC.G\<close> and splitting is on, processing the locator ends
  without an exception, that extension is the split image under the second name in the
  split directory, and, unless the parent is removed, the container is under the first
  name in the parent directory.
\<close>

theorem example_locator_names:
  assumes "split_on CHR ''/'' u = parts" and "8 < length parts"
    and "parts ! 6 = ''72''" and "parts ! 8 = ''0''"
    and "last parts = ''skirt_images_hsc_realistic_v2.fits''"
  shows "parse_url u = Inr (''72'', ''0'', ''v2'')
       \<and> py_int ''72'' = Inr 72 \<and> py_int ''0'' = Inr 0
       \<and> fname_parent_of ''72'' ''0'' ''v2'' = ''72_0_v2_parent.fits''
       \<and> out_name_of ''72'' ''0'' ''G'' ''v2'' = ''72_0_G_v2_hsc_realistic.fits''
       \<and> (\<forall>cfg e w entries code hdul h.
            remote e u (API_KEY cfg) = Response code (Container hdul)
            \<and> raise_for_status code = None
            \<and> \<not> parent_file_only cfg
            \<and> find_hdu hdul ''SUBARU_HSC.G'' = Some h
            \<longrightarrow> snd (process_url cfg e u (w, entries)) = None
              \<and> files (fst (fst (process_url cfg e u (w, entries))))
                  (os_path_join (split_output_dir cfg) ''72_0_G_v2_hsc_realistic.fits'')
                  = Some (SplitFile h)
              \<and> (\<not> remove_parent cfg \<longrightarrow>
                   files (fst (fst (process_url cfg e u (w, entries))))
                     (os_path_join (parent_dir_of cfg) ''72_0_v2_parent.fits'')
                     = Some (ParentFile (Container hdul))))"
proof -
  have p: "parse_url u = Inr (''72'', ''0'', ''v2'')"
    using assms by (rule parse_example_parts)
  have n: "fname_parent_of ''72'' ''0'' ''v2'' = ''72_0_v2_parent.fits''
       \<and> out_name_of ''72'' ''0'' ''G'' ''v2'' = ''72_0_G_v2_hsc_realistic.fits''"
    by (simp add: fname_parent_of_def out_name_of_def)
  from p py_int_72_0 n process_example_item [OF p] show ?thesis by blast
qed


theorem example_locator_names_witness:
  "parse_url ex_url = Inr (''72'', ''0'', ''v2'')
   \<and> snd (process_url ex_cfg ex_env ex_url (ex_world [], Some [])) = None
   \<and> files (fst (fst (process_url ex_cfg ex_env ex_url (ex_world [], Some []))))
       ''split_images/72_0_G_v2_hsc_realistic.fits'' = Some (SplitFile ex_hdu_G)
   \<and> files (fst (fst (process_url ex_cfg ex_env ex_url (ex_world [], Some []))))
       ''split_images/72_0_v2_parent.fits'' = Some (ParentFile (Container [ex_hdu_other, ex_hdu_G]))"
proof -
  have b: "8 < length (split_on CHR ''/'' ex_url)" by code_simp
  have c: "split_on CHR ''/'' ex_url ! 6 = ''72''" by code_simp
  have d: "split_on CHR ''/'' ex_url ! 8 = ''0''" by code_simp
  have e: "last (split_on CHR ''/'' ex_url) = ''skirt_images_hsc_realistic_v2.fits''"
    by code_simp
  note inst = example_locator_names [OF refl b c d e]
  have pr: "remote ex_env ex_url (API_KEY ex_cfg) = Response 200 (Container [ex_hdu_other, ex_hdu_G])
            \<and> raise_for_status 200 = None
            \<and> \<not> parent_file_only ex_cfg
            \<and> find_hdu [ex_hdu_other, ex_hdu_G] ''SUBARU_HSC.G'' = Some ex_hdu_G"
    by code_simp
  note item = inst [THEN conjunct2, THEN conjunct2, THEN conjunct2, THEN conjunct2, THEN conjunct2,
      rule_format, OF pr, where w = "ex_world []" and entries = "Some []"]
  have paths: "os_path_join (split_output_dir ex_cfg) ''72_0_G_v2_hsc_realistic.fits''
                 = ''split_images/72_0_G_v2_hsc_realistic.fits''"
    "os_path_join (parent_dir_of ex_cfg) ''72_0_v2_parent.fits''
                 = ''split_images/72_0_v2_parent.fits''"
    "\<not> remove_parent ex_cfg"
    by (simp_all add: os_path_join_def parent_dir_of_def ex_cfg_def)
  from inst [THEN conjunct1] item paths show ?thesis by simp
qed

end
